theory Spec2Isabelle
  imports Main
begin

section \<open>Upload pipeline: data model (types/upload.ts)\<close>

text \<open>
  A browser \<open>File\<close>: the upload code reads only its \<open>name\<close>; the content is carried
  along as a list of bytes. Strings are lists of 8-bit code units.
\<close>

record File =
  name :: string
  bytes :: "nat list"

text \<open>
  An optional field that TypeScript declares as \<open>T | null\<close> has three states at run time.
\<close>

datatype 'a nullable = Undefined | Null | Value 'a

text \<open>
  \<open>UploadFileModel\<close>: \<open>start_page?: number\<close> and \<open>topic?: string\<close> are absent
  (\<open>None\<close>) or present; \<open>end_page?: number | null\<close> is undefined, null or a number.
  Page numbers are modelled as integers. The field \<open>file\<close> is named \<open>upload_file\<close> here.
\<close>

record UploadFileModel =
  upload_file :: File
  start_page :: "int option"
  end_page :: "int nullable"
  topic :: "string option"

text \<open>
  \<open>UploadSuccess\<close> and \<open>UploadError\<close> are both \<open>{ message: string }\<close>, so their union
  \<open>UploadResponse\<close> is one record: the value carries no tag telling success from failure.
\<close>

record UploadResponse =
  message :: string

section \<open>Upload pipeline: the environment\<close>

text \<open>
  A multi-part body is the ordered list of the entries appended to it; an entry's value is
  a file or a string.
\<close>

datatype FormDataEntryValue = FileEntry File | StringEntry string

type_synonym FormData = "(string \<times> FormDataEntryValue) list"

type_synonym headers = "(string \<times> string) list"

text \<open>
  What a failed \<open>axiosInstance.post\<close> rejects with, and what \<open>new Error(msg)\<close> is: an
  error object with a \<open>message\<close> and, for an HTTP error, a \<open>response\<close> whose \<open>data\<close> may
  carry a \<open>message\<close>. Each optional level is absent (\<open>None\<close>) when undefined or null.
\<close>

datatype ErrorData = ErrorData (data_message: "string option")

datatype ErrorResponse = ErrorResponse (response_status: int) (response_data: "ErrorData option")

datatype JsError = JsError (error_message: string) (error_response: "ErrorResponse option")

record AxiosResponse =
  status :: int
  data :: UploadResponse

text \<open>
  An \<open>async\<close> function either fulfils with a value or rejects with the error it threw.
\<close>

datatype 'a outcome = is_Returned: Returned 'a | Thrown JsError

text \<open>
  The calls \<open>uploadDocument\<close> makes on its surroundings, in the order it makes them:
  reading the session storage, posting through the HTTP client, logging to the console.
\<close>

datatype event =
    GetItem string
  | Post string FormData headers
  | ConsoleError string JsError

fun is_Post :: "event \<Rightarrow> bool" where
  "is_Post (Post u b h) = True"
| "is_Post e = False"

fun is_GetItem :: "event \<Rightarrow> bool" where
  "is_GetItem (GetItem k) = True"
| "is_GetItem e = False"

section \<open>Upload pipeline: lib/uploadDocument.ts\<close>

text \<open>
  \<open>String.prototype.toLowerCase\<close> on one 8-bit code unit: \<open>A\<close>..\<open>Z\<close> and the Latin-1
  capitals (192..222 without the multiplication sign 215) move up by 32.
\<close>

definition toLowerCase_char :: "char \<Rightarrow> char" where
  "toLowerCase_char c =
     (let n = (of_char c :: nat)
      in if (65 \<le> n \<and> n \<le> 90) \<or> (192 \<le> n \<and> n \<le> 222 \<and> n \<noteq> 215)
         then char_of (n + 32) else c)"

definition toLowerCase :: "string \<Rightarrow> string" where
  "toLowerCase s = map toLowerCase_char s"

text \<open>\<open>s.lastIndexOf(c)\<close>: the index of the last occurrence of \<open>c\<close>, or \<open>-1\<close>.\<close>

fun lastIndexOf :: "string \<Rightarrow> char \<Rightarrow> int" where
  "lastIndexOf [] c = - 1"
| "lastIndexOf (x # xs) c =
     (let r = lastIndexOf xs c
      in if 0 \<le> r then r + 1 else if x = c then 0 else - 1)"

text \<open>\<open>s.slice(i)\<close> for an index \<open>i \<ge> 0\<close>: the suffix from \<open>i\<close> on.\<close>

definition slice :: "string \<Rightarrow> int \<Rightarrow> string" where
  "slice s i = drop (nat i) s"

definition ALLOWED :: "string set" where
  "ALLOWED = {''.pdf'', ''.ppt'', ''.docx''}"

definition getExt :: "string \<Rightarrow> string" where
  "getExt s =
     (let i = lastIndexOf s (CHR ''.'')
      in if 0 \<le> i then toLowerCase (slice s i) else '''')"

text \<open>\<open>String(n)\<close> for an integer \<open>n\<close> (below the magnitude where JavaScript switches
  to exponent notation): the decimal digits, with a leading minus sign.\<close>

fun digits :: "nat \<Rightarrow> string" where
  "digits n =
     (if n < 10 then [''0123456789'' ! n]
      else digits (n div 10) @ [''0123456789'' ! (n mod 10)])"

declare digits.simps [simp del]

definition String_of :: "int \<Rightarrow> string" where
  "String_of n = (if n < 0 then CHR ''-'' # digits (nat (- n)) else digits (nat n))"

definition createUploadFormData :: "UploadFileModel \<Rightarrow> FormData" where
  "createUploadFormData d =
     (let fd = [];
          fd = fd @ [(''file'', FileEntry (upload_file d))];
          fd = fd @ [(''start_page'',
                      StringEntry (String_of (case start_page d of None \<Rightarrow> 1 | Some n \<Rightarrow> n)))];
          fd = (case end_page d of
                  Value n \<Rightarrow> fd @ [(''end_page'', StringEntry (String_of n))]
                | Undefined \<Rightarrow> fd
                | Null \<Rightarrow> fd);
          fd = fd @ [(''topic'',
                      StringEntry (case topic d of None \<Rightarrow> ''general'' | Some t \<Rightarrow> t))]
      in fd)"

text \<open>\<open>error.response?.data?.message\<close>: absent as soon as one level is.\<close>

definition response_data_message :: "JsError \<Rightarrow> string option" where
  "response_data_message e =
     (case error_response e of
        None \<Rightarrow> None
      | Some r \<Rightarrow> (case response_data r of None \<Rightarrow> None | Some b \<Rightarrow> data_message b))"

definition invalid_file_type :: string where
  "invalid_file_type = ''Invalid file type. Only PDF, PPT, and DOCX files are allowed.''"

text \<open>
  \<open>uploadDocument\<close>, with the session storage (a map from keys to stored strings) and the
  HTTP client's \<open>post\<close> (which fulfils with a response, \<open>Inr\<close>, or rejects with an error,
  \<open>Inl\<close>) as parameters. The result is the trace of calls made and the outcome of the
  promise. \<open>!token\<close> holds for a missing and for an empty token.
\<close>

definition uploadDocument ::
  "(string \<rightharpoonup> string) \<Rightarrow> (string \<Rightarrow> FormData \<Rightarrow> headers \<Rightarrow> JsError + AxiosResponse)
   \<Rightarrow> UploadFileModel \<Rightarrow> event list \<times> UploadResponse outcome" where
  "uploadDocument sessionStorage post d =
     (let ext = getExt (name (upload_file d))
      in if ext \<notin> ALLOWED then ([], Returned \<lparr>message = invalid_file_type\<rparr>)
         else
           (let token = sessionStorage ''access_token'';
                t1 = [GetItem ''access_token'']
            in case token of
                 None \<Rightarrow> (t1, Thrown (JsError ''No token found'' None))
               | Some tok \<Rightarrow>
                   if tok = '''' then (t1, Thrown (JsError ''No token found'' None))
                   else
                     (let body = createUploadFormData d;
                          config = [(''Authorization'', ''Bearer '' @ tok),
                                    (''Content-Type'', ''multipart/form-data'')];
                          t2 = t1 @ [Post ''/rag/upload'' body config]
                      in case post ''/rag/upload'' body config of
                           Inr response \<Rightarrow> (t2, Returned (data response))
                         | Inl error \<Rightarrow>
                             (t2 @ [ConsoleError ''Upload error:'' error],
                              Returned \<lparr>message =
                                (case response_data_message error of
                                   None \<Rightarrow> ''Unexpected error occurred''
                                 | Some m \<Rightarrow> m)\<rparr>))))"

section \<open>The upload page: app/admin/upload/page.tsx\<close>

text \<open>
  The component state held by the \<open>useState\<close> hooks (\<open>file\<close>, \<open>startPage\<close>, \<open>endPage\<close>,
  \<open>topic\<close>, \<open>submitting\<close>, \<open>message\<close>, \<open>variant\<close>), fields prefixed with \<open>st_\<close>.
\<close>

record page_state =
  st_file :: "File option"
  st_startPage :: int
  st_endPage :: "int option"
  st_topic :: string
  st_submitting :: bool
  st_message :: string
  st_variant :: string

text \<open>
  \<open>handleSubmit\<close>, with the imported \<open>uploadDocument\<close> as a parameter. It returns the
  state after the handler has run, the arguments of every call it made to
  \<open>uploadDocument\<close>, and the trace of those calls. \<open>endPage\<close> is \<open>null\<close> (\<open>None\<close>) or a
  number; the fallbacks behind \<open>??\<close> are unreachable for the typed values and are left out.
\<close>

definition handleSubmit ::
  "(UploadFileModel \<Rightarrow> event list \<times> UploadResponse outcome) \<Rightarrow> page_state
   \<Rightarrow> page_state \<times> UploadFileModel list \<times> event list" where
  "handleSubmit upload st0 =
     (let st = st0\<lparr>st_message := '''', st_variant := ''''\<rparr>
      in case st_file st of
           None \<Rightarrow>
             (st\<lparr>st_variant := ''error'',
                 st_message := ''Please select a file (.pdf, .pptx, .ppt, .docx).''\<rparr>, [], [])
         | Some f \<Rightarrow>
             if st_startPage st < 1 then
               (st\<lparr>st_variant := ''error'',
                   st_message := ''Start page must be at least 1.''\<rparr>, [], [])
             else if (case st_endPage st of None \<Rightarrow> False | Some e \<Rightarrow> e < st_startPage st) then
               (st\<lparr>st_variant := ''error'',
                   st_message := ''End page must be greater than or equal to start page.''\<rparr>,
                [], [])
             else
               (let args = \<lparr>upload_file = f,
                            start_page = Some (st_startPage st),
                            end_page = (case st_endPage st of None \<Rightarrow> Null | Some e \<Rightarrow> Value e),
                            topic = Some (st_topic st)\<rparr>
                in case upload args of
                     (evs, Returned res) \<Rightarrow>
                       (st\<lparr>st_variant := ''success'', st_message := message res,
                           st_submitting := False\<rparr>, [args], evs)
                   | (evs, Thrown err) \<Rightarrow>
                       (st\<lparr>st_variant := ''error'', st_message := error_message err,
                           st_submitting := False\<rparr>, [args], evs)))"

section \<open>Message API: data model\<close>

text \<open>
  \<open>MessageSimple\<close> is the argument of \<open>createMessage\<close>; \<open>Message\<close> adds the fields the
  backend assigns (\<open>id\<close>, here \<open>message_id\<close>, and \<open>createdAt\<close>). Roles are strings.
\<close>

datatype Date = Date string

record MessageSimple =
  conversationId :: string
  role :: string
  content :: string

record Message = MessageSimple +
  message_id :: string
  createdAt :: Date

record CreateAllResult =
  rag :: Message
  raw :: Message
  rawModel :: Message

text \<open>
  The request body of the three creation calls (\<open>content\<close> is \<open>payload_content\<close> here),
  a message as the backend sends it (\<open>id\<close>, \<open>conversation\<close>, \<open>sender_type\<close>, \<open>content\<close>,
  \<open>created_at\<close>, prefixed with \<open>wire_\<close>), and the backend's \<open>{ data: ... }\<close> envelope.
\<close>

record Payload =
  conversation_id :: string
  sender_type :: string
  payload_content :: string

record WireMessage =
  wire_id :: string
  wire_conversation :: string
  wire_sender_type :: string
  wire_content :: string
  wire_created_at :: string

record 'a Envelope =
  envelope_data :: 'a

datatype AbortSignal = AbortSignal bool

text \<open>The argument of \<open>baseQuery\<close>; its field \<open>method\<close> is \<open>http_method\<close> here.\<close>

record FetchArgs =
  url :: string
  http_method :: string
  body :: "Payload option"
  signal :: "AbortSignal option"

text \<open>
  What \<open>baseQuery\<close> resolves to: \<open>{ data }\<close> or \<open>{ error }\<close>. The error is an object (so
  truthy), of a type left open.
\<close>

datatype ('d, 'e) QueryReturnValue = QData 'd | is_QError: QError 'e

section \<open>Message API: the endpoints\<close>

text \<open>
  \<open>Promise.all\<close> over promises that never reject. \<open>results\<close> holds what each promise
  resolves to, \<open>order\<close> the indices of the promises in the order in which they settle.
  Each settlement stores its value at its own index; the joined promise resolves once no
  slot is empty, and stays pending (\<open>None\<close>) when some promise never settles.
\<close>

definition Promise_all :: "'a list \<Rightarrow> nat list \<Rightarrow> 'a list option" where
  "Promise_all results order =
     (let slots = fold (\<lambda>i vs. vs[i := Some (results ! i)]) order
                    (replicate (length results) None)
      in if list_all (\<lambda>v. v \<noteq> None) slots then Some (map the slots) else None)"

definition createMessage_payload :: "MessageSimple \<Rightarrow> Payload" where
  "createMessage_payload b =
     \<lparr>conversation_id = conversationId b,
      sender_type = (if role b = ''user'' then ''User'' else ''Bot''),
      payload_content = content b\<rparr>"

text \<open>The arguments of the three \<open>baseQuery\<close> calls: rag, raw, rawModel.\<close>

definition createMessage_requests :: "MessageSimple \<Rightarrow> AbortSignal \<Rightarrow> FetchArgs list" where
  "createMessage_requests b sig =
     (let payload = createMessage_payload b
      in [\<lparr>url = ''/messages/'', http_method = ''POST'', body = Some payload,
           signal = Some sig\<rparr>,
          \<lparr>url = ''/messages/raw/'', http_method = ''POST'', body = Some payload,
           signal = Some sig\<rparr>,
          \<lparr>url = ''/messages/raw-model/'', http_method = ''POST'', body = Some payload,
           signal = Some sig\<rparr>])"

definition toMessage :: "WireMessage Envelope \<Rightarrow> Message" where
  "toMessage resp =
     (let msg = envelope_data resp
      in \<lparr>conversationId = wire_conversation msg,
          role = (if wire_sender_type msg = ''User'' then ''user'' else ''ai''),
          content = wire_content msg,
          message_id = wire_id msg,
          createdAt = Date (wire_created_at msg)\<rparr>)"

text \<open>
  The \<open>queryFn\<close> of \<open>createMessage\<close>, together with the log of the \<open>baseQuery\<close> calls
  it issues. Issuing a call records its argument and yields what the call resolves to; the
  three calls are issued before the join, so they are in the log whether or not the join
  resolves. \<open>None\<close>: the join never resolves.
\<close>

definition createMessage_queryFn ::
  "MessageSimple \<Rightarrow> AbortSignal \<Rightarrow> (FetchArgs \<Rightarrow> (WireMessage Envelope, 'e) QueryReturnValue)
   \<Rightarrow> nat list \<Rightarrow> FetchArgs list \<times> (CreateAllResult, 'e) QueryReturnValue option" where
  "createMessage_queryFn b sig baseQuery order =
     (let issued = map (\<lambda>args. (args, baseQuery args)) (createMessage_requests b sig);
          requests = map snd issued
      in (map fst issued,
          case Promise_all requests order of
            None \<Rightarrow> None
          | Some rs \<Rightarrow>
              (let ragRes = rs ! 0; rawRes = rs ! 1; rawModelRes = rs ! 2
               in Some
                 (case ragRes of
                    QError e \<Rightarrow> QError e
                  | QData ragData \<Rightarrow>
                      (case rawRes of
                         QError e \<Rightarrow> QError e
                       | QData rawData \<Rightarrow>
                           (case rawModelRes of
                              QError e \<Rightarrow> QError e
                            | QData rawModelData \<Rightarrow>
                                QData \<lparr>rag = toMessage ragData,
                                       raw = toMessage rawData,
                                       rawModel = toMessage rawModelData\<rparr>))))))"

text \<open>What the \<open>queryFn\<close> of \<open>createMessage\<close> resolves to.\<close>

definition createMessage ::
  "MessageSimple \<Rightarrow> AbortSignal \<Rightarrow> (FetchArgs \<Rightarrow> (WireMessage Envelope, 'e) QueryReturnValue)
   \<Rightarrow> nat list \<Rightarrow> (CreateAllResult, 'e) QueryReturnValue option" where
  "createMessage b sig baseQuery order = snd (createMessage_queryFn b sig baseQuery order)"

text \<open>The \<open>transformResponse\<close> of \<open>getMessages\<close> and of \<open>getMessage\<close>.\<close>

definition getMessages_transformResponse :: "WireMessage list Envelope \<Rightarrow> Message list" where
  "getMessages_transformResponse response =
     map (\<lambda>msg.
            \<lparr>conversationId = wire_conversation msg,
             role = (if wire_sender_type msg = ''User'' then ''user'' else ''ai''),
             content = wire_content msg,
             message_id = wire_id msg,
             createdAt = Date (wire_created_at msg)\<rparr>)
         (envelope_data response)"

definition getMessage_transformResponse :: "WireMessage Envelope \<Rightarrow> Message" where
  "getMessage_transformResponse response =
     (let msg = envelope_data response
      in \<lparr>conversationId = wire_conversation msg,
          role = (if wire_sender_type msg = ''User'' then ''user'' else ''ai''),
          content = wire_content msg,
          message_id = wire_id msg,
          createdAt = Date (wire_created_at msg)\<rparr>)"

definition deleteMessage_query :: "string \<Rightarrow> FetchArgs" where
  "deleteMessage_query messageId =
     \<lparr>url = ''/messages/'' @ messageId, http_method = ''DELETE'', body = None,
      signal = None\<rparr>"

text \<open>The tags each endpoint declares.\<close>

datatype endpoint = GetMessageIds | GetMessages | GetMessage | CreateMessage | DeleteMessage

definition tagTypes :: "string list" where
  "tagTypes = [''Message'']"

fun providesTags :: "endpoint \<Rightarrow> string list" where
  "providesTags GetMessageIds = [''Message'']"
| "providesTags GetMessages = [''Message'']"
| "providesTags GetMessage = [''Message'']"
| "providesTags CreateMessage = []"
| "providesTags DeleteMessage = []"

fun invalidatesTags :: "endpoint \<Rightarrow> string list" where
  "invalidatesTags CreateMessage = [''Message'']"
| "invalidatesTags DeleteMessage = [''Message'']"
| "invalidatesTags GetMessageIds = []"
| "invalidatesTags GetMessages = []"
| "invalidatesTags GetMessage = []"

section \<open>The result cache\<close>

text \<open>
  Modelled from the spec: the Result Cache of section 4.2, which is the query library's
  tag store and is not part of the repository's sources. An entry is filed under a tag
  and a key; \<open>get\<close> returns the value of an entry that is present and not stale, \<open>put\<close>
  stores or replaces an entry, \<open>invalidate\<close> marks every entry under a tag as stale.
\<close>

record 'v CachedQueryEntry =
  entry_value :: 'v
  stale :: bool

type_synonym 'v cache = "string \<times> string \<rightharpoonup> 'v CachedQueryEntry"

definition cache_get :: "'v cache \<Rightarrow> string \<Rightarrow> string \<Rightarrow> 'v option" where
  "cache_get c t k =
     (case c (t, k) of
        None \<Rightarrow> None
      | Some e \<Rightarrow> if stale e then None else Some (entry_value e))"

definition cache_put :: "'v cache \<Rightarrow> string \<Rightarrow> string \<Rightarrow> 'v \<Rightarrow> 'v cache" where
  "cache_put c t k v = c((t, k) \<mapsto> \<lparr>entry_value = v, stale = False\<rparr>)"

definition invalidate :: "'v cache \<Rightarrow> string \<Rightarrow> 'v cache" where
  "invalidate c t =
     (\<lambda>(t', k). if t' = t then map_option (\<lambda>e. e\<lparr>stale := True\<rparr>) (c (t', k)) else c (t', k))"

text \<open>
  Modelled from the spec: a read under a tag. A hit returns the cached value; a miss makes
  the caller perform the fetch (whose outcome is \<open>fetched\<close>) and \<open>put\<close> a successful
  result; a failed fetch leaves the cache as it is. The last component tells whether the
  fetch was performed.
\<close>

definition run_query ::
  "'v cache \<Rightarrow> string \<Rightarrow> string \<Rightarrow> ('v, 'e) QueryReturnValue
   \<Rightarrow> ('v, 'e) QueryReturnValue \<times> 'v cache \<times> bool" where
  "run_query c t k fetched =
     (case cache_get c t k of
        Some v \<Rightarrow> (QData v, c, False)
      | None \<Rightarrow>
          (case fetched of
             QData v \<Rightarrow> (QData v, cache_put c t k v, True)
           | QError e \<Rightarrow> (QError e, c, True)))"

text \<open>
  Modelled from the spec: a mutation that succeeded invalidates each tag its endpoint
  declares under \<open>invalidatesTags\<close> before the result is handed to the caller; a failed
  one leaves the cache untouched.
\<close>

definition after_mutation ::
  "endpoint \<Rightarrow> ('d, 'e) QueryReturnValue \<Rightarrow> 'v cache \<Rightarrow> 'v cache" where
  "after_mutation ep result c =
     (case result of
        QData d \<Rightarrow> fold (\<lambda>t c'. invalidate c' t) (invalidatesTags ep) c
      | QError e \<Rightarrow> c)"

definition createMessage_mutation ::
  "MessageSimple \<Rightarrow> AbortSignal \<Rightarrow> (FetchArgs \<Rightarrow> (WireMessage Envelope, 'e) QueryReturnValue)
   \<Rightarrow> nat list \<Rightarrow> 'v cache \<Rightarrow> ((CreateAllResult, 'e) QueryReturnValue \<times> 'v cache) option" where
  "createMessage_mutation b sig baseQuery order c =
     (case createMessage b sig baseQuery order of
        None \<Rightarrow> None
      | Some r \<Rightarrow> Some (r, after_mutation CreateMessage r c))"

definition deleteMessage_mutation ::
  "(FetchArgs \<Rightarrow> ('d, 'e) QueryReturnValue) \<Rightarrow> string \<Rightarrow> 'v cache
   \<Rightarrow> ('d, 'e) QueryReturnValue \<times> 'v cache" where
  "deleteMessage_mutation baseQuery messageId c =
     (let r = baseQuery (deleteMessage_query messageId)
      in (r, after_mutation DeleteMessage r c))"

section \<open>Example inputs\<close>

definition offline_post :: "string \<Rightarrow> FormData \<Rightarrow> headers \<Rightarrow> JsError + AxiosResponse" where
  "offline_post u b h = Inl (JsError ''Network Error'' None)"

definition rejecting_post :: "string \<Rightarrow> FormData \<Rightarrow> headers \<Rightarrow> JsError + AxiosResponse" where
  "rejecting_post u b h =
     Inl (JsError ''Request failed with status code 400''
            (Some (ErrorResponse 400 (Some (ErrorData (Some ''Bad file''))))))"

definition token_storage :: "string \<rightharpoonup> string" where
  "token_storage = Map.empty(''access_token'' \<mapsto> ''abc'')"

definition pdf_upload :: UploadFileModel where
  "pdf_upload = \<lparr>upload_file = \<lparr>name = ''doc.pdf'', bytes = [37, 80, 68, 70]\<rparr>,
                 start_page = None, end_page = Null, topic = None\<rparr>"

definition txt_upload :: UploadFileModel where
  "txt_upload = \<lparr>upload_file = \<lparr>name = ''doc.txt'', bytes = [104, 105]\<rparr>,
                 start_page = Some 2, end_page = Value 5, topic = Some ''notes''\<rparr>"

definition page_form :: "int \<Rightarrow> int option \<Rightarrow> page_state" where
  "page_form s e =
     \<lparr>st_file = Some \<lparr>name = ''doc.pdf'', bytes = [37, 80, 68, 70]\<rparr>,
      st_startPage = s, st_endPage = e, st_topic = ''general'',
      st_submitting = False, st_message = '''', st_variant = ''''\<rparr>"

text \<open>The three messages \<open>handleSubmit\<close> shows for a submission it rejects locally.\<close>

definition validation_messages :: "string set" where
  "validation_messages =
     {''Please select a file (.pdf, .pptx, .ppt, .docx).'',
      ''Start page must be at least 1.'',
      ''End page must be greater than or equal to start page.''}"

text \<open>A request from the user and one from the assistant; a backend that stores what it
  is sent; and three behaviours of \<open>baseQuery\<close>.\<close>

definition hello_request :: MessageSimple where
  "hello_request = \<lparr>conversationId = ''c1'', role = ''user'', content = ''hello''\<rparr>"

definition assistant_request :: MessageSimple where
  "assistant_request = \<lparr>conversationId = ''c1'', role = ''assistant'', content = ''hi''\<rparr>"

definition echo_response :: "Payload \<Rightarrow> WireMessage Envelope" where
  "echo_response p =
     \<lparr>envelope_data =
        \<lparr>wire_id = ''m1'', wire_conversation = conversation_id p,
         wire_sender_type = sender_type p, wire_content = payload_content p,
         wire_created_at = ''2024-01-01T00:00:00Z''\<rparr>\<rparr>"

definition all_fail :: "FetchArgs \<Rightarrow> (WireMessage Envelope, string) QueryReturnValue" where
  "all_fail args = QError (url args)"

definition raw_fails :: "FetchArgs \<Rightarrow> (WireMessage Envelope, string) QueryReturnValue" where
  "raw_fails args =
     (if url args = ''/messages/raw/'' then QError ''raw failed''
      else case body args of
             Some p \<Rightarrow> QData (echo_response p)
           | None \<Rightarrow> QError ''no body'')"

definition all_succeed :: "FetchArgs \<Rightarrow> (WireMessage Envelope, string) QueryReturnValue" where
  "all_succeed args =
     (case body args of
        Some p \<Rightarrow> QData (echo_response p)
      | None \<Rightarrow> QData (echo_response \<lparr>conversation_id = '''', sender_type = '''',
                                        payload_content = ''''\<rparr>))"

definition message_cache :: "string cache" where
  "message_cache = cache_put Map.empty ''Message'' ''getMessages(c1)'' ''cached list''"

definition delete_ok :: "FetchArgs \<Rightarrow> (unit, string) QueryReturnValue" where
  "delete_ok args = QData ()"

section \<open>Evaluation lemmas\<close>

lemma getExt_doc_pdf: "getExt ''doc.pdf'' = ''.pdf''"
  by (simp add: getExt_def slice_def toLowerCase_def toLowerCase_char_def)

lemma getExt_doc_txt: "getExt ''doc.txt'' = ''.txt''"
  by (simp add: getExt_def slice_def toLowerCase_def toLowerCase_char_def)

lemma String_of_1: "String_of 1 = ''1''"
  by (simp add: String_of_def digits.simps)

lemma pdf_upload_allowed: "getExt (name (upload_file pdf_upload)) \<in> ALLOWED"
  by (simp add: pdf_upload_def getExt_doc_pdf ALLOWED_def)

lemma txt_upload_refused: "getExt (name (upload_file txt_upload)) \<notin> ALLOWED"
  by (simp add: txt_upload_def getExt_doc_txt ALLOWED_def)

section \<open>The extension allow-list\<close>

text \<open>
  Claim C3 says that \<open>uploadDocument\<close> accepts exactly the suffixes \<open>.pdf\<close>, \<open>.docx\<close>,
  \<open>.pptx\<close> and \<open>.ppt\<close>. The set \<open>ALLOWED\<close> has no \<open>.pptx\<close>: a file named \<open>doc.pptx\<close> is
  turned down with the invalid-file-type message, whatever the storage and the HTTP
  client are, and before either is used.
\<close>

theorem uploadDocument_pptx_rejected:
  "uploadDocument sessionStorage post
     \<lparr>upload_file = \<lparr>name = ''doc.pptx'', bytes = bs\<rparr>,
      start_page = sp, end_page = ep, topic = tp\<rparr>
   = ([], Returned \<lparr>message = invalid_file_type\<rparr>)"
  by (simp add: uploadDocument_def ALLOWED_def getExt_def slice_def toLowerCase_def
        toLowerCase_char_def)

text \<open>
  Claim C10: extension validation comes before the credential lookup. For every input
  whose suffix is outside \<open>ALLOWED\<close>, and every session storage (one without a token
  included), the result is the invalid-file-type message and the trace is empty: the
  storage is not read and nothing is posted.
\<close>

theorem uploadDocument_extension_first:
  assumes "getExt (name (upload_file d)) \<notin> ALLOWED"
  shows "uploadDocument sessionStorage post d = ([], Returned \<lparr>message = invalid_file_type\<rparr>)
       \<and> \<not> list_ex is_GetItem (fst (uploadDocument sessionStorage post d))
       \<and> \<not> list_ex is_Post (fst (uploadDocument sessionStorage post d))"
  using assms by (simp add: uploadDocument_def)

theorem uploadDocument_extension_first_witness:
  "getExt (name (upload_file txt_upload)) \<notin> ALLOWED
   \<and> uploadDocument Map.empty offline_post txt_upload
       = ([], Returned \<lparr>message = invalid_file_type\<rparr>)
   \<and> \<not> list_ex is_GetItem (fst (uploadDocument Map.empty offline_post txt_upload))
   \<and> \<not> list_ex is_Post (fst (uploadDocument Map.empty offline_post txt_upload))"
proof -
  note h = txt_upload_refused
  from uploadDocument_extension_first
         [OF h, where sessionStorage = Map.empty and post = offline_post] h
  show ?thesis by simp
qed

section \<open>The missing credential\<close>

text \<open>
  Claim C4 as stated (a missing token makes \<open>uploadDocument\<close> return a failure value
  rather than raise) does not hold: with an allowed file and an empty session storage the
  promise rejects with \<open>Error("No token found")\<close>.
\<close>

theorem uploadDocument_no_token_throws:
  "uploadDocument Map.empty offline_post pdf_upload
     = ([GetItem ''access_token''], Thrown (JsError ''No token found'' None))
   \<and> \<not> is_Returned (snd (uploadDocument Map.empty offline_post pdf_upload))"
  by (simp add: uploadDocument_def pdf_upload_allowed)

text \<open>
  Claim C4, amended: when no token (or an empty one) is stored, \<open>uploadDocument\<close> never
  invokes the HTTP client; for a file with an allowed suffix it reads the storage once
  and rejects with \<open>Error("No token found")\<close>, and for any other file it returns the
  invalid-file-type message.
\<close>

theorem uploadDocument_no_token:
  assumes "sessionStorage ''access_token'' = None \<or> sessionStorage ''access_token'' = Some ''''"
  shows "uploadDocument sessionStorage post d
           = (if getExt (name (upload_file d)) \<in> ALLOWED
              then ([GetItem ''access_token''], Thrown (JsError ''No token found'' None))
              else ([], Returned \<lparr>message = invalid_file_type\<rparr>))
         \<and> \<not> list_ex is_Post (fst (uploadDocument sessionStorage post d))"
  using assms by (auto simp add: uploadDocument_def)

theorem uploadDocument_no_token_witness:
  "uploadDocument (Map.empty(''access_token'' \<mapsto> '''')) offline_post pdf_upload
     = ([GetItem ''access_token''], Thrown (JsError ''No token found'' None))
   \<and> \<not> list_ex is_Post
         (fst (uploadDocument (Map.empty(''access_token'' \<mapsto> '''')) offline_post pdf_upload))"
proof -
  from uploadDocument_no_token
         [where sessionStorage = "Map.empty(''access_token'' \<mapsto> '''')"
            and post = offline_post and d = pdf_upload] pdf_upload_allowed
  show ?thesis by simp
qed

section \<open>Failure transparency of the transfer\<close>

text \<open>
  Claim C6: for every input with an allowed suffix and a non-empty stored token,
  \<open>uploadDocument\<close> fulfils with a value whatever the HTTP client does; when the post
  rejects with an error, that error is logged and turned into a message: the one in the
  error's response data when there is one, \<open>Unexpected error occurred\<close> otherwise.
\<close>

theorem uploadDocument_failure_transparency:
  assumes "getExt (name (upload_file d)) \<in> ALLOWED"
    and "sessionStorage ''access_token'' = Some tok" and "tok \<noteq> ''''"
  shows "is_Returned (snd (uploadDocument sessionStorage post d))
       \<and> (\<forall>err. post ''/rag/upload'' (createUploadFormData d)
                   [(''Authorization'', ''Bearer '' @ tok),
                    (''Content-Type'', ''multipart/form-data'')] = Inl err
            \<longrightarrow> uploadDocument sessionStorage post d
                  = ([GetItem ''access_token'',
                      Post ''/rag/upload'' (createUploadFormData d)
                        [(''Authorization'', ''Bearer '' @ tok),
                         (''Content-Type'', ''multipart/form-data'')],
                      ConsoleError ''Upload error:'' err],
                     Returned \<lparr>message = (case response_data_message err of
                                            None \<Rightarrow> ''Unexpected error occurred''
                                          | Some m \<Rightarrow> m)\<rparr>))"
  using assms by (auto simp add: uploadDocument_def Let_def split: sum.splits)

theorem uploadDocument_failure_transparency_witness:
  "uploadDocument token_storage offline_post pdf_upload
     = ([GetItem ''access_token'',
         Post ''/rag/upload'' (createUploadFormData pdf_upload)
           [(''Authorization'', ''Bearer abc''), (''Content-Type'', ''multipart/form-data'')],
         ConsoleError ''Upload error:'' (JsError ''Network Error'' None)],
        Returned \<lparr>message = ''Unexpected error occurred''\<rparr>)
   \<and> is_Returned (snd (uploadDocument token_storage offline_post pdf_upload))
   \<and> snd (uploadDocument token_storage rejecting_post pdf_upload)
     = Returned \<lparr>message = ''Bad file''\<rparr>"
proof -
  note e = pdf_upload_allowed
  have t: "token_storage ''access_token'' = Some ''abc''" "''abc'' \<noteq> ''''"
    by (simp_all add: token_storage_def)
  note a = uploadDocument_failure_transparency
         [where sessionStorage = token_storage and tok = "''abc''" and d = pdf_upload
            and post = offline_post, OF e t]
  note b = uploadDocument_failure_transparency
         [where sessionStorage = token_storage and tok = "''abc''" and d = pdf_upload
            and post = rejecting_post, OF e t]
  from a b show ?thesis
    by (simp add: offline_post_def rejecting_post_def response_data_message_def)
qed

section \<open>The multi-part payload\<close>

text \<open>
  Claim C8: for every \<open>UploadFileModel\<close>, the payload built by \<open>createUploadFormData\<close>
  holds the file under \<open>file\<close>; \<open>start_page\<close> as a string, \<open>1\<close> when absent; \<open>end_page\<close>
  exactly when it is neither undefined nor null; \<open>topic\<close>, \<open>general\<close> when absent; and no
  other field.
\<close>

theorem createUploadFormData_fields:
  "map_of (createUploadFormData d) ''file'' = Some (FileEntry (upload_file d))
   \<and> map_of (createUploadFormData d) ''start_page''
       = Some (StringEntry (case start_page d of None \<Rightarrow> ''1'' | Some n \<Rightarrow> String_of n))
   \<and> map_of (createUploadFormData d) ''end_page''
       = (case end_page d of
            Undefined \<Rightarrow> None
          | Null \<Rightarrow> None
          | Value n \<Rightarrow> Some (StringEntry (String_of n)))
   \<and> map_of (createUploadFormData d) ''topic''
       = Some (StringEntry (case topic d of None \<Rightarrow> ''general'' | Some t \<Rightarrow> t))
   \<and> map fst (createUploadFormData d)
       = (case end_page d of
            Undefined \<Rightarrow> [''file'', ''start_page'', ''topic'']
          | Null \<Rightarrow> [''file'', ''start_page'', ''topic'']
          | Value n \<Rightarrow> [''file'', ''start_page'', ''end_page'', ''topic''])"
  by (simp add: createUploadFormData_def String_of_1 split: nullable.splits option.splits)

theorem createUploadFormData_fields_witness:
  "map_of (createUploadFormData pdf_upload) ''file''
     = Some (FileEntry \<lparr>name = ''doc.pdf'', bytes = [37, 80, 68, 70]\<rparr>)
   \<and> map_of (createUploadFormData pdf_upload) ''start_page'' = Some (StringEntry ''1'')
   \<and> map_of (createUploadFormData pdf_upload) ''end_page'' = None
   \<and> map_of (createUploadFormData pdf_upload) ''topic'' = Some (StringEntry ''general'')
   \<and> map fst (createUploadFormData pdf_upload) = [''file'', ''start_page'', ''topic'']
   \<and> map_of (createUploadFormData txt_upload) ''start_page'' = Some (StringEntry ''2'')
   \<and> map_of (createUploadFormData txt_upload) ''end_page'' = Some (StringEntry ''5'')
   \<and> map_of (createUploadFormData txt_upload) ''topic'' = Some (StringEntry ''notes'')"
proof -
  have s: "String_of 2 = ''2''" "String_of 5 = ''5''"
    by (simp_all add: String_of_def digits.simps)
  from createUploadFormData_fields [of pdf_upload] createUploadFormData_fields [of txt_upload]
  show ?thesis by (simp add: pdf_upload_def txt_upload_def s)
qed

section \<open>Page-range validation on the upload page\<close>

text \<open>
  Claim C7: \<open>handleSubmit\<close> validates the page range before it calls \<open>uploadDocument\<close>.
  For every state of the form, a start page below 1, or an end page that is present and
  below the start page, ends in the error variant with one of the local validation
  messages, with no call to \<open>uploadDocument\<close> and an empty trace. With a file selected, a
  start page of at least 1 and an end page that is absent or not below the start page
  (start page 1 with no end page in particular), \<open>uploadDocument\<close> is called once, with
  the form's values.
\<close>

theorem handleSubmit_page_range:
  "(st_startPage st < 1 \<or> (\<exists>e. st_endPage st = Some e \<and> e < st_startPage st)
      \<longrightarrow> st_variant (fst (handleSubmit upload st)) = ''error''
          \<and> st_message (fst (handleSubmit upload st)) \<in> validation_messages
          \<and> fst (snd (handleSubmit upload st)) = []
          \<and> snd (snd (handleSubmit upload st)) = [])
   \<and> (st_file st = Some f \<and> 1 \<le> st_startPage st
        \<and> (case st_endPage st of None \<Rightarrow> True | Some e \<Rightarrow> st_startPage st \<le> e)
      \<longrightarrow> fst (snd (handleSubmit upload st))
            = [\<lparr>upload_file = f, start_page = Some (st_startPage st),
                end_page = (case st_endPage st of None \<Rightarrow> Null | Some e \<Rightarrow> Value e),
                topic = Some (st_topic st)\<rparr>]
          \<and> snd (snd (handleSubmit upload st))
            = fst (upload \<lparr>upload_file = f, start_page = Some (st_startPage st),
                end_page = (case st_endPage st of None \<Rightarrow> Null | Some e \<Rightarrow> Value e),
                topic = Some (st_topic st)\<rparr>))"
  by (auto simp add: handleSubmit_def validation_messages_def Let_def
           split: option.splits prod.splits outcome.splits)

theorem handleSubmit_page_range_witness:
  "st_variant (fst (handleSubmit (uploadDocument token_storage offline_post) (page_form 0 None)))
     = ''error''
   \<and> fst (snd (handleSubmit (uploadDocument token_storage offline_post) (page_form 0 None))) = []
   \<and> st_variant (fst (handleSubmit (uploadDocument token_storage offline_post)
                        (page_form 3 (Some 2)))) = ''error''
   \<and> fst (snd (handleSubmit (uploadDocument token_storage offline_post) (page_form 3 (Some 2))))
     = []
   \<and> snd (snd (handleSubmit (uploadDocument token_storage offline_post) (page_form 3 (Some 2))))
     = []
   \<and> fst (snd (handleSubmit (uploadDocument token_storage offline_post) (page_form 1 None)))
     = [\<lparr>upload_file = \<lparr>name = ''doc.pdf'', bytes = [37, 80, 68, 70]\<rparr>,
         start_page = Some 1, end_page = Null, topic = Some ''general''\<rparr>]"
proof -
  note u = handleSubmit_page_range [where upload = "uploadDocument token_storage offline_post"]
  from u [of "page_form 0 None"] u [of "page_form 3 (Some 2)"]
    u [of "page_form 1 None" "\<lparr>name = ''doc.pdf'', bytes = [37, 80, 68, 70]\<rparr>"]
  show ?thesis
    by (simp add: page_form_def)
qed

section \<open>The join of the three creation calls\<close>

lemma fold_store_length:
  "length (fold (\<lambda>i vs. vs[i := Some (rs ! i)]) order vs) = length vs"
  by (induction order arbitrary: vs) simp_all

lemma fold_store_nth:
  "j < length vs \<Longrightarrow>
   fold (\<lambda>i vs. vs[i := Some (rs ! i)]) order vs ! j
     = (if j \<in> set order then Some (rs ! j) else vs ! j)"
proof (induction order arbitrary: vs)
  case Nil
  then show ?case by simp
next
  case (Cons i order)
  from Cons.prems have "j < length (vs[i := Some (rs ! i)])" by simp
  from Cons.IH [OF this] Cons.prems show ?case
    by (auto simp add: nth_list_update)
qed

lemma Promise_all_settled:
  assumes "{0..<length rs} \<subseteq> set order"
  shows "Promise_all rs order = Some rs"
proof -
  let ?slots = "fold (\<lambda>i vs. vs[i := Some (rs ! i)]) order (replicate (length rs) None)"
  have "?slots = map Some rs"
  proof (rule nth_equalityI)
    show "length ?slots = length (map Some rs)" by (simp add: fold_store_length)
  next
    fix j assume "j < length ?slots"
    then have j: "j < length rs" by (simp add: fold_store_length)
    with assms have "j \<in> set order" by auto
    with j show "?slots ! j = map Some rs ! j" by (simp add: fold_store_nth)
  qed
  then show ?thesis by (simp add: Promise_all_def list_all_iff comp_def)
qed

lemma Promise_all_pending:
  assumes "j < length rs" and "j \<notin> set order"
  shows "Promise_all rs order = None"
proof -
  let ?slots = "fold (\<lambda>i vs. vs[i := Some (rs ! i)]) order (replicate (length rs) None)"
  from assms have "?slots ! j = None" by (simp add: fold_store_nth)
  moreover from assms have "j < length ?slots" by (simp add: fold_store_length)
  ultimately have "None \<in> set ?slots" by (metis nth_mem)
  then show ?thesis by (auto simp add: Promise_all_def Let_def list_all_iff)
qed

lemma issued_answers: "snd \<circ> (\<lambda>args. (args, f args)) = f"
  by (rule ext) simp

lemma issued_log: "fst \<circ> (\<lambda>args. (args, f args)) = (\<lambda>args. args)"
  by (rule ext) simp

lemma createMessage_requests_length: "length (createMessage_requests b sig) = 3"
  by (simp add: createMessage_requests_def Let_def)

lemma createMessage_settled:
  assumes "{0, 1, 2} \<subseteq> set order"
  shows "Promise_all (map baseQuery (createMessage_requests b sig)) order
         = Some (map baseQuery (createMessage_requests b sig))"
proof -
  have "{0..<length (map baseQuery (createMessage_requests b sig))} = {0, 1, 2}"
    by (auto simp add: createMessage_requests_length)
  with assms show ?thesis by (simp add: Promise_all_settled)
qed

lemma createMessage_joined:
  assumes "{0, 1, 2} \<subseteq> set order"
  shows "createMessage b sig baseQuery order
          = Some (case map baseQuery (createMessage_requests b sig) ! 0 of
                    QError e \<Rightarrow> QError e
                  | QData ragData \<Rightarrow>
                      (case map baseQuery (createMessage_requests b sig) ! Suc 0 of
                         QError e \<Rightarrow> QError e
                       | QData rawData \<Rightarrow>
                           (case map baseQuery (createMessage_requests b sig) ! 2 of
                              QError e \<Rightarrow> QError e
                            | QData rawModelData \<Rightarrow>
                                QData \<lparr>rag = toMessage ragData,
                                       raw = toMessage rawData,
                                       rawModel = toMessage rawModelData\<rparr>)))"
  by (simp add: createMessage_def createMessage_queryFn_def Let_def issued_answers
        createMessage_settled [OF assms])

text \<open>
  Claim C1: first error wins. For every request, every \<open>baseQuery\<close> and every order in
  which the three calls settle, if at least one of the three calls (rag, raw, rawModel)
  returns an error, \<open>createMessage\<close> returns the error of the first of them in that
  fixed order that failed, and no \<open>CreateAllResult\<close>.
\<close>

theorem createMessage_first_error_wins:
  assumes "{0, 1, 2} \<subseteq> set order"
    and "\<exists>r \<in> set (map baseQuery (createMessage_requests b sig)). is_QError r"
  shows "\<exists>e. find is_QError (map baseQuery (createMessage_requests b sig)) = Some (QError e)
            \<and> createMessage b sig baseQuery order = Some (QError e)
            \<and> (\<forall>d. createMessage b sig baseQuery order \<noteq> Some (QData d))"
proof -
  note joined = createMessage_joined [OF assms(1), of b sig baseQuery]
  with assms(2) show ?thesis
    by (auto simp add: createMessage_requests_def Let_def split: QueryReturnValue.splits)
qed

theorem createMessage_first_error_wins_witness:
  "createMessage hello_request (AbortSignal False) all_fail [2, 1, 0]
     = Some (QError ''/messages/'')
   \<and> createMessage hello_request (AbortSignal False) all_fail [0, 2, 1]
     = Some (QError ''/messages/'')
   \<and> createMessage hello_request (AbortSignal False) raw_fails [1, 2, 0]
     = Some (QError ''raw failed'')"
proof -
  have o: "{0, 1, 2} \<subseteq> set [2, 1, 0::nat]" "{0, 1, 2} \<subseteq> set [0, 2, 1::nat]"
    "{0, 1, 2} \<subseteq> set [1, 2, 0::nat]"
    by simp_all
  have f: "\<exists>r \<in> set (map all_fail (createMessage_requests hello_request (AbortSignal False))).
             is_QError r"
    by (simp add: createMessage_requests_def Let_def all_fail_def)
  have g: "\<exists>r \<in> set (map raw_fails (createMessage_requests hello_request (AbortSignal False))).
             is_QError r"
    by (simp add: createMessage_requests_def Let_def raw_fails_def)
  from createMessage_first_error_wins [OF o(1) f] createMessage_first_error_wins [OF o(2) f]
    createMessage_first_error_wins [OF o(3) g]
  show ?thesis
    by (simp add: createMessage_requests_def Let_def all_fail_def raw_fails_def
          createMessage_payload_def hello_request_def echo_response_def)
qed

section \<open>The payload of the three creation calls\<close>

text \<open>
  Claim C9: for every request, every \<open>baseQuery\<close> and every settlement order (complete or
  not), the calls \<open>createMessage\<close> issues are exactly three, to the rag, raw and rawModel
  routes in this order, and all three carry the same payload: the request's
  \<open>conversationId\<close> and \<open>content\<close>, and the role sent as \<open>User\<close> for \<open>user\<close> and as \<open>Bot\<close>
  otherwise (so for \<open>assistant\<close>). Once the three calls have settled, the result is built
  from the answers to exactly these three calls.
\<close>

theorem createMessage_same_payload:
  "(let payload = \<lparr>conversation_id = conversationId b,
                   sender_type = (if role b = ''user'' then ''User'' else ''Bot''),
                   payload_content = content b\<rparr>;
        ragArgs = \<lparr>url = ''/messages/'', http_method = ''POST'', body = Some payload,
                   signal = Some sig\<rparr>;
        rawArgs = \<lparr>url = ''/messages/raw/'', http_method = ''POST'', body = Some payload,
                   signal = Some sig\<rparr>;
        rawModelArgs = \<lparr>url = ''/messages/raw-model/'', http_method = ''POST'',
                        body = Some payload, signal = Some sig\<rparr>
    in fst (createMessage_queryFn b sig baseQuery order) = [ragArgs, rawArgs, rawModelArgs]
       \<and> ({0, 1, 2} \<subseteq> set order \<longrightarrow>
            createMessage b sig baseQuery order
              = Some (case baseQuery ragArgs of
                        QError e \<Rightarrow> QError e
                      | QData ragData \<Rightarrow>
                          (case baseQuery rawArgs of
                             QError e \<Rightarrow> QError e
                           | QData rawData \<Rightarrow>
                               (case baseQuery rawModelArgs of
                                  QError e \<Rightarrow> QError e
                                | QData rawModelData \<Rightarrow>
                                    QData \<lparr>rag = toMessage ragData,
                                           raw = toMessage rawData,
                                           rawModel = toMessage rawModelData\<rparr>)))))"
proof -
  have log: "fst (createMessage_queryFn b sig baseQuery order) = createMessage_requests b sig"
    by (simp add: createMessage_queryFn_def Let_def issued_log)
  show ?thesis
    unfolding log
    by (auto simp add: createMessage_joined createMessage_requests_def createMessage_payload_def
          Let_def split: QueryReturnValue.splits)
qed

theorem createMessage_same_payload_witness:
  "fst (createMessage_queryFn assistant_request (AbortSignal False) raw_fails [])
     = [\<lparr>url = ''/messages/'', http_method = ''POST'',
         body = Some \<lparr>conversation_id = ''c1'', sender_type = ''Bot'',
                       payload_content = ''hi''\<rparr>,
         signal = Some (AbortSignal False)\<rparr>,
        \<lparr>url = ''/messages/raw/'', http_method = ''POST'',
         body = Some \<lparr>conversation_id = ''c1'', sender_type = ''Bot'',
                       payload_content = ''hi''\<rparr>,
         signal = Some (AbortSignal False)\<rparr>,
        \<lparr>url = ''/messages/raw-model/'', http_method = ''POST'',
         body = Some \<lparr>conversation_id = ''c1'', sender_type = ''Bot'',
                       payload_content = ''hi''\<rparr>,
         signal = Some (AbortSignal False)\<rparr>]
   \<and> map body (fst (createMessage_queryFn hello_request (AbortSignal False) raw_fails [2, 0, 1]))
     = [Some \<lparr>conversation_id = ''c1'', sender_type = ''User'', payload_content = ''hello''\<rparr>,
        Some \<lparr>conversation_id = ''c1'', sender_type = ''User'', payload_content = ''hello''\<rparr>,
        Some \<lparr>conversation_id = ''c1'', sender_type = ''User'', payload_content = ''hello''\<rparr>]
   \<and> createMessage hello_request (AbortSignal False) raw_fails [2, 0, 1]
     = Some (QError ''raw failed'')
   \<and> createMessage assistant_request (AbortSignal False) all_succeed [1, 2, 0]
     = Some (QData
         \<lparr>rag = \<lparr>conversationId = ''c1'', role = ''ai'', content = ''hi'', message_id = ''m1'',
                 createdAt = Date ''2024-01-01T00:00:00Z''\<rparr>,
          raw = \<lparr>conversationId = ''c1'', role = ''ai'', content = ''hi'', message_id = ''m1'',
                 createdAt = Date ''2024-01-01T00:00:00Z''\<rparr>,
          rawModel = \<lparr>conversationId = ''c1'', role = ''ai'', content = ''hi'',
                      message_id = ''m1'', createdAt = Date ''2024-01-01T00:00:00Z''\<rparr>\<rparr>)"
proof -
  have o: "{0, 1, 2} \<subseteq> set [2, 0, 1::nat]" "{0, 1, 2} \<subseteq> set [1, 2, 0::nat]"
    by simp_all
  from createMessage_same_payload
         [where b = assistant_request and sig = "AbortSignal False" and baseQuery = raw_fails
            and order = "[]"]
       createMessage_same_payload
         [where b = hello_request and sig = "AbortSignal False" and baseQuery = raw_fails
            and order = "[2, 0, 1]"]
       createMessage_same_payload
         [where b = assistant_request and sig = "AbortSignal False" and baseQuery = all_succeed
            and order = "[1, 2, 0]"]
       o
  show ?thesis
    by (simp add: Let_def hello_request_def assistant_request_def raw_fails_def all_succeed_def
          echo_response_def toMessage_def)
qed

section \<open>Role translation\<close>

text \<open>
  Claim C5 as stated (\<open>assistant\<close> sent as \<open>Bot\<close> reads back as \<open>assistant\<close>) does not
  hold: the role of a request from \<open>assistant\<close>, sent and read back, is \<open>ai\<close>.
\<close>

theorem role_round_trip_assistant:
  "role (toMessage (echo_response (createMessage_payload assistant_request))) = ''ai''
   \<and> role (toMessage (echo_response (createMessage_payload assistant_request)))
       \<noteq> role assistant_request"
  by (simp add: toMessage_def echo_response_def createMessage_payload_def assistant_request_def)

text \<open>
  Claim C5, amended: a message whose wire role is the one \<open>createMessage\<close> sent reads
  back, through \<open>toMessage\<close> and through the \<open>transformResponse\<close> of \<open>getMessage\<close> and of
  \<open>getMessages\<close>, as \<open>user\<close> when the request's role was \<open>user\<close> and as \<open>ai\<close> otherwise.
  The round trip gives the role back exactly for the roles \<open>user\<close> and \<open>ai\<close>.
\<close>

theorem role_round_trip:
  assumes "wire_sender_type w = sender_type (createMessage_payload b)"
  shows "role (toMessage \<lparr>envelope_data = w\<rparr>) = (if role b = ''user'' then ''user'' else ''ai'')
       \<and> role (getMessage_transformResponse \<lparr>envelope_data = w\<rparr>)
           = (if role b = ''user'' then ''user'' else ''ai'')
       \<and> map role (getMessages_transformResponse \<lparr>envelope_data = [w]\<rparr>)
           = [if role b = ''user'' then ''user'' else ''ai'']
       \<and> (role (toMessage \<lparr>envelope_data = w\<rparr>) = role b \<longleftrightarrow> role b = ''user'' \<or> role b = ''ai'')"
  using assms
  by (auto simp add: toMessage_def getMessage_transformResponse_def
        getMessages_transformResponse_def createMessage_payload_def)

theorem role_round_trip_witness:
  "role (toMessage (echo_response (createMessage_payload hello_request))) = ''user''
   \<and> role (toMessage (echo_response (createMessage_payload hello_request))) = role hello_request
   \<and> role (getMessage_transformResponse (echo_response (createMessage_payload assistant_request)))
       = ''ai''"
proof -
  have a: "wire_sender_type (envelope_data (echo_response (createMessage_payload hello_request)))
           = sender_type (createMessage_payload hello_request)"
    and b: "wire_sender_type (envelope_data (echo_response (createMessage_payload assistant_request)))
           = sender_type (createMessage_payload assistant_request)"
    by (simp_all add: echo_response_def)
  from role_round_trip [OF a] role_round_trip [OF b]
  show ?thesis
    by (simp add: hello_request_def assistant_request_def echo_response_def)
qed

section \<open>Cache invalidation\<close>

lemma cache_get_invalidate: "cache_get (invalidate c t) t k = None"
  by (simp add: cache_get_def invalidate_def split: option.splits)

lemma run_query_miss:
  "cache_get c t k = None \<Longrightarrow> snd (snd (run_query c t k fetched))"
  by (simp add: run_query_def split: QueryReturnValue.splits)

text \<open>
  Claim C2: a \<open>createMessage\<close> or \<open>deleteMessage\<close> mutation that succeeded hands the
  caller a cache in which every read under the tag \<open>Message\<close> misses, so that a query run
  on it performs its fetch; this covers every tag a query endpoint provides.
\<close>

theorem mutations_invalidate_Message:
  "(createMessage_mutation b sig baseQuery order c = Some (QData r, c')
      \<longrightarrow> cache_get c' ''Message'' k = None
          \<and> snd (snd (run_query c' ''Message'' k fetched))
          \<and> (\<forall>q. \<forall>t \<in> set (providesTags q). cache_get c' t k = None))
   \<and> (deleteMessage_mutation baseQuery' messageId c = (QData r', c'')
      \<longrightarrow> cache_get c'' ''Message'' k = None
          \<and> snd (snd (run_query c'' ''Message'' k fetched))
          \<and> (\<forall>q. \<forall>t \<in> set (providesTags q). cache_get c'' t k = None))"
proof -
  have tags: "t \<in> set (providesTags q) \<Longrightarrow> t = ''Message''" for t q
    by (cases q) simp_all
  have 1: "cache_get c' ''Message'' k = None"
    if "createMessage_mutation b sig baseQuery order c = Some (QData r, c')"
    using that
    by (auto simp add: createMessage_mutation_def after_mutation_def cache_get_invalidate
          split: option.splits)
  have 2: "cache_get c'' ''Message'' k = None"
    if "deleteMessage_mutation baseQuery' messageId c = (QData r', c'')"
    using that
    by (auto simp add: deleteMessage_mutation_def after_mutation_def cache_get_invalidate Let_def)
  from 1 2 show ?thesis
    by (auto simp add: run_query_miss dest: tags)
qed

theorem mutations_invalidate_Message_witness:
  "cache_get message_cache ''Message'' ''getMessages(c1)'' = Some ''cached list''
   \<and> cache_get
        (snd (the (createMessage_mutation hello_request (AbortSignal False) all_succeed
                     [2, 0, 1] message_cache)))
        ''Message'' ''getMessages(c1)'' = None
   \<and> cache_get (snd (deleteMessage_mutation delete_ok ''m1'' message_cache))
        ''Message'' ''getMessages(c1)'' = None"
proof -
  have o: "{0, 1, 2} \<subseteq> set [2, 0, 1::nat]" by simp
  have "\<exists>r. createMessage hello_request (AbortSignal False) all_succeed [2, 0, 1]
               = Some (QData r)"
    unfolding createMessage_joined [OF o]
    by (simp add: createMessage_requests_def Let_def all_succeed_def)
  then obtain r where r: "createMessage hello_request (AbortSignal False) all_succeed [2, 0, 1]
                          = Some (QData r)" ..
  then have m: "createMessage_mutation hello_request (AbortSignal False) all_succeed
                  [2, 0, 1] message_cache
                = Some (QData r, after_mutation CreateMessage
                                   (QData r :: (CreateAllResult, string) QueryReturnValue)
                                   message_cache)"
    by (simp add: createMessage_mutation_def)
  have d: "deleteMessage_mutation delete_ok ''m1'' message_cache
           = (QData (), after_mutation DeleteMessage
                          (QData () :: (unit, string) QueryReturnValue) message_cache)"
    by (simp add: deleteMessage_mutation_def delete_ok_def Let_def)
  from mutations_invalidate_Message
         [where b = hello_request and sig = "AbortSignal False" and baseQuery = all_succeed
            and order = "[2, 0, 1]" and c = message_cache and r = r
            and c' = "after_mutation CreateMessage
                        (QData r :: (CreateAllResult, string) QueryReturnValue) message_cache"
            and baseQuery' = delete_ok and messageId = "''m1''" and r' = "()"
            and c'' = "after_mutation DeleteMessage
                         (QData () :: (unit, string) QueryReturnValue) message_cache"
            and k = "''getMessages(c1)''" and fetched = "QError ''unused''"]
       m d
  show ?thesis
    by (simp add: message_cache_def cache_get_def cache_put_def)
qed

end
